theory Spec2Isabelle
  imports Complex_Main "HOL-Library.Multiset" "HOL-Library.Product_Lexorder"
begin

section \<open>The Customer collection (backend/models/Customer.js)\<close>

text \<open>
  One document of the \<open>customers\<close> collection. A customer account and its queue entry
  are the same document: \<open>email\<close> carries a unique index, \<open>tokenNumber\<close> is a number,
  \<open>null\<close> (written by cancelQueue) or missing (an account that never joined).
  Only the fields the queue handlers read or write are kept; name, phone, password
  and the timestamps are left out. JavaScript numbers that hold whole values are \<open>int\<close>.
  A MongoDB ObjectId is a natural number.
\<close>

datatype status = Waiting | InService | Completed | Cancelled

datatype jsnum = Undefined | Null | Num int

record customer =
  cid :: nat
  email :: string
  shopId :: string
  tokenNumber :: jsnum
  status :: status
  serviceType :: string
  estimatedWaitTime :: int
  queuePosition :: int

type_synonym collection = "customer list"

text \<open>HTTP error statuses of the handlers: 400, 401, 403, 404, 500.\<close>

datatype error = BadRequest | Unauthorized | Forbidden | NotFound | ServerError

text \<open>
  A route parameter \<open>:id\<close>: either a string that matches \<open>/^[0-9a-fA-F]{24}$/\<close>, which
  denotes an ObjectId, or any other string (the empty one included).
\<close>

datatype idparam = Malformed | ObjectId nat

subsection \<open>Store primitives\<close>

definition findById :: "nat \<Rightarrow> collection \<Rightarrow> customer option" where
  "findById i s = find (\<lambda>d. cid d = i) s"

definition findByEmail :: "string \<Rightarrow> collection \<Rightarrow> customer option" where
  "findByEmail e s = find (\<lambda>d. email d = e) s"

text \<open>\<open>doc.save()\<close> of a document read from the collection: written back under its \<open>_id\<close>.\<close>

definition save :: "customer \<Rightarrow> collection \<Rightarrow> collection" where
  "save c s = map (\<lambda>d. if cid d = cid c then c else d) s"

text \<open>The driver generates an ObjectId no document of the collection has.\<close>

definition newObjectId :: "collection \<Rightarrow> nat" where
  "newObjectId s = Suc (fold max (map cid s) 0)"

definition active :: "customer \<Rightarrow> bool" where
  "active d = (status d = Waiting \<or> status d = InService)"

text \<open>\<open>Customer.countDocuments({ shopId, status: { $in: ['waiting', 'in-service'] } })\<close>\<close>

definition countActive :: "string \<Rightarrow> collection \<Rightarrow> int" where
  "countActive sh s = int (length (filter (\<lambda>d. shopId d = sh \<and> active d) s))"

text \<open>\<open>Customer.find({ shopId, status: 'waiting' })\<close>\<close>

definition findWaiting :: "string \<Rightarrow> collection \<Rightarrow> customer list" where
  "findWaiting sh s = filter (\<lambda>d. shopId d = sh \<and> status d = Waiting) s"

subsection \<open>getNextTokenNumber\<close>

text \<open>
  \<open>findOne({ shopId }).sort({ tokenNumber: -1 })\<close>: numbers in descending order, then the
  documents whose tokenNumber is null or missing (MongoDB compares the two as equal);
  documents with equal keys are taken in collection order. The key below is ascending
  in that order. \<open>null + 1\<close> is \<open>1\<close> and \<open>undefined + 1\<close> is \<open>NaN\<close> (the result \<open>None\<close>).
\<close>

fun tokenDesc :: "customer \<Rightarrow> nat \<times> int" where
  "tokenDesc d = (case tokenNumber d of Num n \<Rightarrow> (0, - n) | _ \<Rightarrow> (1, 0))"

definition getNextTokenNumber :: "string \<Rightarrow> collection \<Rightarrow> int option" where
  "getNextTokenNumber sh s =
     (case sort_key tokenDesc (filter (\<lambda>d. shopId d = sh) s) of
        [] \<Rightarrow> Some 1
      | lastCustomer # _ \<Rightarrow>
          (case tokenNumber lastCustomer of
             Num n \<Rightarrow> Some (n + 1)
           | Null \<Rightarrow> Some 1
           | Undefined \<Rightarrow> None))"

subsection \<open>updateQueuePositions (backend/controllers/queueController.js)\<close>

definition setPosition :: "nat \<Rightarrow> customer \<Rightarrow> customer" where
  "setPosition i c = c\<lparr>queuePosition := int i + 1, estimatedWaitTime := (int i + 1) * 20\<rparr>"

text \<open>The \<open>for\<close> loop over \<open>waitingCustomers\<close>, from index \<open>i\<close> on.\<close>

fun positionsLoop :: "nat \<Rightarrow> customer list \<Rightarrow> collection \<Rightarrow> collection" where
  "positionsLoop i [] s = s"
| "positionsLoop i (w # ws) s = positionsLoop (Suc i) ws (save (setPosition i w) s)"

text \<open>
  \<open>find(...).sort({ queuePosition: 1 })\<close> is a stable sort on the stored position:
  documents with the same stored position stay in collection order.
\<close>

definition updateQueuePositions :: "string \<Rightarrow> collection \<Rightarrow> collection" where
  "updateQueuePositions sh s = positionsLoop 0 (sort_key queuePosition (findWaiting sh s)) s"

subsection \<open>The handlers\<close>

text \<open>
  Every handler takes the collection and returns its HTTP answer with the collection
  it leaves behind. A thrown exception is caught by the handler's \<open>catch\<close> and
  answered with status 500.
\<close>

definition serviceTypes :: "string list" where
  "serviceTypes = [''haircut'', ''shave'', ''haircut-shave'', ''styling'', ''other'']"

record joinData =
  jd_tokenNumber :: int
  jd_queuePosition :: int
  jd_estimatedWaitTime :: int
  jd_customerId :: nat

text \<open>
  The unique partial index on (shopId, tokenNumber): a write that would give a second
  document of the shop the same numeric ticket is refused by the store.
\<close>

definition tokenTaken :: "string \<Rightarrow> int \<Rightarrow> string \<Rightarrow> collection \<Rightarrow> bool" where
  "tokenTaken sh t e s = (\<exists>d \<in> set s. email d \<noteq> e \<and> shopId d = sh \<and> tokenNumber d = Num t)"

text \<open>
  joinQueue: \<open>e\<close> is \<open>req.user.email\<close> (set by the auth middleware), \<open>svc\<close> and \<open>shop\<close> are
  the body fields \<open>serviceType\<close> and \<open>shopId\<close> (\<open>None\<close> when absent; shopId defaults to
  \<open>'main-shop'\<close>). \<open>findOneAndUpdate({ email }, ..., { new, upsert, runValidators })\<close>
  casts the update (a \<open>NaN\<close> ticket is a cast error), validates the serviceType enum,
  then overwrites the document with that email, or inserts one when there is none.
  No save hook runs, so estimatedWaitTime keeps its stored value (the default 0 on insert).
\<close>

definition bodyShopId :: "string option \<Rightarrow> string" where
  "bodyShopId shop = (case shop of None \<Rightarrow> ''main-shop'' | Some x \<Rightarrow> x)"

definition joinQueue ::
  "string \<Rightarrow> string option \<Rightarrow> string option \<Rightarrow> collection \<Rightarrow> (error + joinData) \<times> collection" where
  "joinQueue e svc shop s =
     (let sh = bodyShopId shop in
      (case svc of
        None \<Rightarrow> (Inl BadRequest, s)
      | Some sv \<Rightarrow>
          if sv = [] then (Inl BadRequest, s)
          else
            (case getNextTokenNumber sh s of
               None \<Rightarrow> (Inl ServerError, s)
             | Some t \<Rightarrow>
                 let queueCount = countActive sh s in
                 if sv \<notin> set serviceTypes then (Inl ServerError, s)
                 else if tokenTaken sh t e s then (Inl ServerError, s)
                 else
                   (case findByEmail e s of
                      Some c \<Rightarrow>
                        let c' = c\<lparr>serviceType := sv, shopId := sh, tokenNumber := Num t,
                                   queuePosition := queueCount + 1, status := Waiting\<rparr>
                        in (Inr \<lparr>jd_tokenNumber = t, jd_queuePosition = queueCount + 1,
                                 jd_estimatedWaitTime = estimatedWaitTime c',
                                 jd_customerId = cid c'\<rparr>,
                            save c' s)
                    | None \<Rightarrow>
                        let c' = \<lparr>cid = newObjectId s, email = e, shopId = sh,
                                   tokenNumber = Num t, status = Waiting, serviceType = sv,
                                   estimatedWaitTime = 0, queuePosition = queueCount + 1\<rparr>
                        in (Inr \<lparr>jd_tokenNumber = t, jd_queuePosition = queueCount + 1,
                                 jd_estimatedWaitTime = 0, jd_customerId = cid c'\<rparr>,
                            s @ [c'])))))"

text \<open>
  cancelQueue: \<open>user\<close> is \<open>req.user.email\<close>, \<open>None\<close> when \<open>req.user\<close> or its email is
  missing; an empty email is falsy as well.
\<close>

definition cancelQueue ::
  "idparam \<Rightarrow> string option \<Rightarrow> collection \<Rightarrow> (error + unit) \<times> collection" where
  "cancelQueue ident user s =
     (case user of
        None \<Rightarrow> (Inl Unauthorized, s)
      | Some userEmail \<Rightarrow>
          if userEmail = [] then (Inl Unauthorized, s)
          else
            (case ident of
               Malformed \<Rightarrow> (Inl BadRequest, s)
             | ObjectId i \<Rightarrow>
                 (case findById i s of
                    None \<Rightarrow> (Inl NotFound, s)
                  | Some customer \<Rightarrow>
                      if email customer \<noteq> userEmail then (Inl Forbidden, s)
                      else if status customer \<noteq> Waiting then (Inl BadRequest, s)
                      else
                        let sh = shopId customer;
                            c' = customer\<lparr>status := Cancelled, tokenNumber := Null,
                                          queuePosition := 0, shopId := ''main-shop''\<rparr>
                        in (Inr (), updateQueuePositions sh (save c' s)))))"

text \<open>
  serveCustomer and completeService call \<open>findById\<close> on the raw parameter: a string
  that is no ObjectId makes the cast throw.
\<close>

definition serveCustomer :: "idparam \<Rightarrow> collection \<Rightarrow> (error + customer) \<times> collection" where
  "serveCustomer ident s =
     (case ident of
        Malformed \<Rightarrow> (Inl ServerError, s)
      | ObjectId i \<Rightarrow>
          (case findById i s of
             None \<Rightarrow> (Inl NotFound, s)
           | Some customer \<Rightarrow>
               if status customer \<noteq> Waiting then (Inl BadRequest, s)
               else let c' = customer\<lparr>status := InService\<rparr> in (Inr c', save c' s)))"

definition completeService :: "idparam \<Rightarrow> collection \<Rightarrow> (error + customer) \<times> collection" where
  "completeService ident s =
     (case ident of
        Malformed \<Rightarrow> (Inl ServerError, s)
      | ObjectId i \<Rightarrow>
          (case findById i s of
             None \<Rightarrow> (Inl NotFound, s)
           | Some customer \<Rightarrow>
               let c' = customer\<lparr>status := Completed\<rparr>
               in (Inr c', updateQueuePositions (shopId c') (save c' s))))"

text \<open>
  registerCustomer (the signup handler), on the fields of the model: a new account is a
  document with the schema defaults, among them shopId \<open>'main-shop'\<close>, status
  \<open>'waiting'\<close>, position 0 and no tokenNumber.
\<close>

definition registerCustomer :: "string \<Rightarrow> collection \<Rightarrow> (error + nat) \<times> collection" where
  "registerCustomer e s =
     (if e = [] then (Inl BadRequest, s)
      else
        (case findByEmail e s of
           Some _ \<Rightarrow> (Inl BadRequest, s)
         | None \<Rightarrow>
             let c = \<lparr>cid = newObjectId s, email = e, shopId = ''main-shop'',
                      tokenNumber = Undefined, status = Waiting, serviceType = ''haircut'',
                      estimatedWaitTime = 0, queuePosition = 0\<rparr>
             in (Inr (cid c), s @ [c])))"

subsection \<open>Request sequences\<close>

datatype request =
    Register string
  | Join string "string option" "string option"
  | Serve idparam
  | Complete idparam
  | Cancel idparam "string option"

fun exec :: "request \<Rightarrow> collection \<Rightarrow> collection" where
  "exec (Register e) s = snd (registerCustomer e s)"
| "exec (Join e svc shop) s = snd (joinQueue e svc shop s)"
| "exec (Serve i) s = snd (serveCustomer i s)"
| "exec (Complete i) s = snd (completeService i s)"
| "exec (Cancel i u) s = snd (cancelQueue i u s)"

definition run :: "request list \<Rightarrow> collection \<Rightarrow> collection" where
  "run rs s = fold exec rs s"

section \<open>Nearby-shop discovery\<close>

text \<open>
  A shop document of the Barber or the BarberShop collection, on the fields discovery
  reads: \<open>location.coordinates\<close> is \<open>[longitude, latitude]\<close>. JavaScript's doubles are
  modelled by the real numbers.
\<close>

record shop =
  sh_shopId :: string
  sh_longitude :: real
  sh_latitude :: real
  sh_averageWaitTime :: int

text \<open>\<open>Math.atan2(y, x)\<close> and \<open>Math.round\<close> (halves go up).\<close>

definition atan2 :: "real \<Rightarrow> real \<Rightarrow> real" where
  "atan2 y x =
     (if 0 < x then arctan (y / x)
      else if x < 0 then (if 0 \<le> y then arctan (y / x) + pi else arctan (y / x) - pi)
      else if 0 < y then pi / 2
      else if y < 0 then - (pi / 2)
      else 0)"

definition Math_round :: "real \<Rightarrow> int" where
  "Math_round x = \<lfloor>x + 1 / 2\<rfloor>"

text \<open>The great-circle distance \<open>R * c\<close> that getDistance computes before it rounds.\<close>

definition haversine :: "shop \<Rightarrow> real \<Rightarrow> real \<Rightarrow> real" where
  "haversine sh longitude latitude =
     (let R = 6371;
          lat1 = sh_latitude sh; lon1 = sh_longitude sh;
          lat2 = latitude; lon2 = longitude;
          dLat = (lat2 - lat1) * pi / 180;
          dLon = (lon2 - lon1) * pi / 180;
          a = sin (dLat / 2) * sin (dLat / 2) +
              cos (lat1 * pi / 180) * cos (lat2 * pi / 180) * sin (dLon / 2) * sin (dLon / 2);
          c = 2 * atan2 (sqrt a) (sqrt (1 - a))
      in R * c)"

text \<open>getDistance (the same method in both shop models): kilometres, one decimal place.\<close>

definition getDistance :: "shop \<Rightarrow> real \<Rightarrow> real \<Rightarrow> real" where
  "getDistance sh longitude latitude =
     (let distance = haversine sh longitude latitude
      in real_of_int (Math_round (distance * 10)) / 10)"

subsection \<open>Formatting the estimated wait\<close>

definition digitChar :: "nat \<Rightarrow> char" where
  "digitChar n = ''0123456789'' ! n"

fun showNat :: "nat \<Rightarrow> string" where
  "showNat n = (if n < 10 then [digitChar n] else showNat (n div 10) @ [digitChar (n mod 10)])"

declare showNat.simps [simp del]

text \<open>A whole number inside a template literal.\<close>

definition showInt :: "int \<Rightarrow> string" where
  "showInt n = (if n < 0 then CHR ''-'' # showNat (nat (- n)) else showNat (nat n))"

text \<open>JavaScript's \<open>%\<close> with a positive divisor: the sign follows the dividend.\<close>

definition jsRem :: "int \<Rightarrow> int \<Rightarrow> int" where
  "jsRem a b = (if a < 0 then - ((- a) mod b) else a mod b)"

definition waitTimeText :: "int \<Rightarrow> string" where
  "waitTimeText estimatedWait =
     (if estimatedWait = 0 then ''No wait''
      else if estimatedWait < 60 then showInt estimatedWait @ '' min''
      else
        let hours = estimatedWait div 60; mins = jsRem estimatedWait 60
        in if mins > 0 then showInt hours @ '' hr '' @ showInt mins @ '' min''
           else showInt hours @ '' hr'')"

subsection \<open>getNearbyBarbers\<close>

record enriched =
  en_shopId :: string
  en_distance :: real
  en_queueLength :: int
  en_estimatedWaitTime :: int
  en_waitTimeText :: string

text \<open>
  The geospatial index is the store's: a \<open>$near\<close> query is a function of the query
  point and the maximal distance that returns the matching shop documents.
\<close>

type_synonym geoQuery = "real \<Rightarrow> real \<Rightarrow> int \<Rightarrow> shop list"

text \<open>
  The handler routed at \<open>/api/barbers/nearby\<close> (barberShopController). \<open>userLat\<close> and
  \<open>userLon\<close> are the results of \<open>parseFloat\<close> (\<open>None\<close> is \<open>NaN\<close>), \<open>radius\<close> the parsed
  query parameter (\<open>None\<close> when absent). Both collections are searched, each query
  limited to 50 documents, and every shop waits 15 minutes per queued customer.
\<close>

definition enrichShop :: "collection \<Rightarrow> real \<Rightarrow> real \<Rightarrow> shop \<Rightarrow> enriched" where
  "enrichShop customers userLon userLat sh =
     (let distance = getDistance sh userLon userLat;
          queueLength = countActive (sh_shopId sh) customers;
          estimatedWait = queueLength * 15
      in \<lparr>en_shopId = sh_shopId sh, en_distance = distance, en_queueLength = queueLength,
          en_estimatedWaitTime = estimatedWait, en_waitTimeText = waitTimeText estimatedWait\<rparr>)"

text \<open>The two \<open>$near\<close> queries, each with \<open>.limit(50)\<close>, and their concatenation.\<close>

definition nearbyBarbers :: "geoQuery \<Rightarrow> geoQuery \<Rightarrow> real \<Rightarrow> real \<Rightarrow> int \<Rightarrow> shop list" where
  "nearbyBarbers barberFind shopFind userLon userLat maxDistance =
     (let barbers = take 50 (barberFind userLon userLat maxDistance);
          shops = take 50 (shopFind userLon userLat maxDistance)
      in barbers @ shops)"

definition getNearbyBarbers ::
  "geoQuery \<Rightarrow> geoQuery \<Rightarrow> collection \<Rightarrow> real option \<Rightarrow> real option \<Rightarrow> int option
     \<Rightarrow> error + enriched list" where
  "getNearbyBarbers barberFind shopFind customers lat lng radius =
     (case (lat, lng) of
        (Some userLat, Some userLon) \<Rightarrow>
          if userLat = 0 \<or> userLon = 0 then Inl BadRequest
          else if userLat < - 90 \<or> userLat > 90 \<or> userLon < - 180 \<or> userLon > 180
          then Inl BadRequest
          else
            let maxDistance = (case radius of Some r \<Rightarrow> r | None \<Rightarrow> 5000);
                enrichedBarbers =
                  map (enrichShop customers userLon userLat)
                    (nearbyBarbers barberFind shopFind userLon userLat maxDistance)
            in Inr (sort_key en_distance enrichedBarbers)
      | _ \<Rightarrow> Inl BadRequest)"

text \<open>
  The handler of the same name in backend/controllers/barberController.js: one
  collection, the radius checked, the shop's own \<open>averageWaitTime\<close> per customer.
\<close>

definition enrichBarber :: "collection \<Rightarrow> real \<Rightarrow> real \<Rightarrow> shop \<Rightarrow> enriched" where
  "enrichBarber customers userLon userLat barber =
     (let distance = getDistance barber userLon userLat;
          queueLength = countActive (sh_shopId barber) customers;
          estimatedWait = queueLength * sh_averageWaitTime barber
      in \<lparr>en_shopId = sh_shopId barber, en_distance = distance, en_queueLength = queueLength,
          en_estimatedWaitTime = estimatedWait, en_waitTimeText = waitTimeText estimatedWait\<rparr>)"

definition getNearbyBarbers_barberController ::
  "geoQuery \<Rightarrow> collection \<Rightarrow> real option \<Rightarrow> real option \<Rightarrow> int option
     \<Rightarrow> error + enriched list" where
  "getNearbyBarbers_barberController findNearby customers lat lng radius =
     (case (lat, lng) of
        (Some userLat, Some userLon) \<Rightarrow>
          if userLat = 0 \<or> userLon = 0 then Inl BadRequest
          else
            let maxDistance = (case radius of Some r \<Rightarrow> r | None \<Rightarrow> 2000) in
            if userLat < - 90 \<or> userLat > 90 \<or> userLon < - 180 \<or> userLon > 180
            then Inl BadRequest
            else if maxDistance < 0 \<or> maxDistance > 50000 then Inl BadRequest
            else
              let barbers = findNearby userLon userLat maxDistance;
                  enrichedBarbers = map (enrichBarber customers userLon userLat) barbers
              in Inr (sort_key en_distance enrichedBarbers)
      | _ \<Rightarrow> Inl BadRequest)"

section \<open>Notions used in the statements\<close>

text \<open>
  A document without the two fields the position recompute writes: two collections
  with the same cores differ in positions and estimated waits only.
\<close>

definition core :: "customer \<Rightarrow> customer" where
  "core d = d\<lparr>queuePosition := 0, estimatedWaitTime := 0\<rparr>"




text \<open>
  The documents the loop of updateQueuePositions saves, in order: the \<open>k\<close>-th document
  of the sorted waiting list with position and estimated wait set from \<open>i + k\<close>.
\<close>

fun renumber :: "nat \<Rightarrow> customer list \<Rightarrow> customer list" where
  "renumber i [] = []"
| "renumber i (w # ws) = setPosition i w # renumber (Suc i) ws"

section \<open>Properties of the handlers\<close>

subsection \<open>Formatting of the estimated wait\<close>

text \<open>
  Claim C7. waitTimeText is "No wait" for an estimated wait of 0 minutes and
  "1 hr 15 min" for 75 minutes. For queueLength = 3 at an average service time of 20
  minutes the estimate is 60 minutes, which the handlers render as "1 hr": only an
  estimate below 60 is rendered in minutes. (The routed handler uses 15 minutes per
  customer for every shop; there three customers give "45 min".)
\<close>

theorem waitTimeText_examples:
  "waitTimeText 0 = ''No wait''
   \<and> waitTimeText (3 * 20) = ''1 hr''
   \<and> waitTimeText (3 * 15) = ''45 min''
   \<and> waitTimeText 75 = ''1 hr 15 min''"
  by code_simp

theorem waitTimeText_sixty_counterexample:
  "en_waitTimeText (enrichBarber
      [\<lparr>cid = 1, email = ''a@x.io'', shopId = ''s1'', tokenNumber = Num 1, status = Waiting,
         serviceType = ''haircut'', estimatedWaitTime = 0, queuePosition = 1\<rparr>,
       \<lparr>cid = 2, email = ''b@x.io'', shopId = ''s1'', tokenNumber = Num 2, status = Waiting,
         serviceType = ''haircut'', estimatedWaitTime = 0, queuePosition = 2\<rparr>,
       \<lparr>cid = 3, email = ''c@x.io'', shopId = ''s1'', tokenNumber = Num 3, status = Waiting,
         serviceType = ''haircut'', estimatedWaitTime = 0, queuePosition = 3\<rparr>]
      1 1
      \<lparr>sh_shopId = ''s1'', sh_longitude = 1, sh_latitude = 1, sh_averageWaitTime = 20\<rparr>)
     \<noteq> ''60 min''"
proof -
  have "waitTimeText 60 = ''1 hr''"
    by code_simp
  then show ?thesis
    by (simp add: enrichBarber_def countActive_def active_def Let_def)
qed

subsection \<open>Completing an entry\<close>

text \<open>
  Claim C3. Complete is meant to succeed only on an in-service entry. completeService
  has no status check (serveCustomer and cancelQueue have one): on a waiting entry it
  answers with success and the entry is completed.
\<close>

theorem completeService_waiting_entry:
  "completeService (ObjectId 1)
     [\<lparr>cid = 1, email = ''a@x.io'', shopId = ''shop-a'', tokenNumber = Num 1, status = Waiting,
        serviceType = ''haircut'', estimatedWaitTime = 0, queuePosition = 1\<rparr>]
   = (Inr \<lparr>cid = 1, email = ''a@x.io'', shopId = ''shop-a'', tokenNumber = Num 1,
           status = Completed, serviceType = ''haircut'', estimatedWaitTime = 0,
           queuePosition = 1\<rparr>,
      [\<lparr>cid = 1, email = ''a@x.io'', shopId = ''shop-a'', tokenNumber = Num 1,
         status = Completed, serviceType = ''haircut'', estimatedWaitTime = 0,
         queuePosition = 1\<rparr>])"
  by (simp add: completeService_def findById_def save_def updateQueuePositions_def
      findWaiting_def Let_def)

subsection \<open>Validation of a discovery request\<close>

text \<open>
  Claim C6. Every origin in range is meant to be accepted, zero coordinates included,
  and a radius outside [0, 50000] refused. Both handlers test \<open>!userLat || !userLon\<close>
  first, which is true of a coordinate 0: an origin on the equator is refused whatever
  the store holds. The routed handler does not check the radius at all: 60000 metres
  goes to the store query.
\<close>

theorem getNearbyBarbers_zero_latitude:
  "getNearbyBarbers barberFind shopFind customers (Some 0) (Some 72.8311) (Some 2000)
     = Inl BadRequest
   \<and> getNearbyBarbers_barberController findNearby customers (Some 0) (Some 72.8311) (Some 2000)
     = Inl BadRequest
   \<and> getNearbyBarbers barberFind shopFind customers (Some 21.1702) (Some 72.8311) (Some 60000)
     = Inr (sort_key en_distance (map (enrichShop customers 72.8311 21.1702)
              (take 50 (barberFind 72.8311 21.1702 60000)
               @ take 50 (shopFind 72.8311 21.1702 60000))))"
  by (simp add: getNearbyBarbers_def getNearbyBarbers_barberController_def nearbyBarbers_def)

subsection \<open>Cancelling an entry\<close>

text \<open>
  Claim C9. When an authenticated customer asks to cancel an entry that exists and
  belongs to another customer, cancelQueue answers 403 (Forbidden) and the collection,
  hence the entry with its status, ticket number and position, is unchanged.
\<close>

theorem cancelQueue_not_owner:
  assumes "userEmail \<noteq> []" and "findById i s = Some c" and "email c \<noteq> userEmail"
  shows "cancelQueue (ObjectId i) (Some userEmail) s = (Inl Forbidden, s)"
  using assms by (simp add: cancelQueue_def)

theorem cancelQueue_not_owner_witness:
  "cancelQueue (ObjectId 1) (Some ''b@x.io'')
     [\<lparr>cid = 1, email = ''a@x.io'', shopId = ''shop-a'', tokenNumber = Num 1, status = Waiting,
        serviceType = ''haircut'', estimatedWaitTime = 0, queuePosition = 1\<rparr>]
   = (Inl Forbidden,
      [\<lparr>cid = 1, email = ''a@x.io'', shopId = ''shop-a'', tokenNumber = Num 1, status = Waiting,
         serviceType = ''haircut'', estimatedWaitTime = 0, queuePosition = 1\<rparr>])"
  using cancelQueue_not_owner [of "''b@x.io''" 1
      "[\<lparr>cid = 1, email = ''a@x.io'', shopId = ''shop-a'', tokenNumber = Num 1,
          status = Waiting, serviceType = ''haircut'', estimatedWaitTime = 0,
          queuePosition = 1\<rparr>]"
      "\<lparr>cid = 1, email = ''a@x.io'', shopId = ''shop-a'', tokenNumber = Num 1,
         status = Waiting, serviceType = ''haircut'', estimatedWaitTime = 0,
         queuePosition = 1\<rparr>"]
  by (simp add: findById_def)

subsection \<open>The store: identifiers, saving, the position recompute\<close>

lemma map_cid_save [simp]: "map cid (save c s) = map cid s"
  by (induction s) (auto simp: save_def)

lemma length_save [simp]: "length (save c s) = length s"
  by (simp add: save_def)

lemma findById_Some: "findById i s = Some c \<Longrightarrow> c \<in> set s \<and> cid c = i"
  by (auto simp: findById_def find_Some_iff)

lemma findByEmail_Some: "findByEmail e s = Some c \<Longrightarrow> c \<in> set s \<and> email c = e"
  by (auto simp: findByEmail_def find_Some_iff)


lemma cid_unique: "distinct (map cid s) \<Longrightarrow> c \<in> set s \<Longrightarrow> d \<in> set s \<Longrightarrow> cid d = cid c \<Longrightarrow> d = c"
  by (meson distinct_map inj_onD)

lemma save_replace:
  assumes "distinct (map cid s)" and "c \<in> set s" and "cid c' = cid c"
  shows "save c' s = map (\<lambda>d. if d = c then c' else d) s"
  unfolding save_def using assms cid_unique by (intro map_cong) auto

lemma save_same: "distinct (map cid s) \<Longrightarrow> c \<in> set s \<Longrightarrow> save c s = s"
  by (simp add: save_replace[of s c c] map_idI)



lemma length_filter_save:
  assumes "distinct (map cid s)" and "c \<in> set s" and "cid c' = cid c" and "\<not> P c" and "P c'"
  shows "length (filter P (save c' s)) = Suc (length (filter P s))"
proof -
  have "length (filter P (map (\<lambda>d. if d = c then c' else d) s)) = Suc (length (filter P s))"
    using assms(1,2)
  proof (induction s)
    case Nil
    then show ?case by simp
  next
    case (Cons d s)
    show ?case
    proof (cases "d = c")
      case True
      then have "c \<notin> set s" using Cons.prems(1) by (auto simp: image_iff)
      then have "map (\<lambda>d. if d = c then c' else d) s = s" by (intro map_idI) auto
      with True assms(4,5) show ?thesis by simp
    next
      case False
      then show ?thesis using Cons by auto
    qed
  qed
  then show ?thesis using assms(1-3) by (simp add: save_replace [of s c c'])
qed



lemma core_setPosition [simp]: "core (setPosition i c) = core c"
  by (simp add: core_def setPosition_def)

lemma cid_setPosition [simp]: "cid (setPosition i c) = cid c"
  by (simp add: setPosition_def)

lemma cid_core [simp]: "cid (core d) = cid d"
  by (simp add: core_def)

lemma core_fields [simp]:
  "email (core d) = email d" "shopId (core d) = shopId d" "tokenNumber (core d) = tokenNumber d"
  "status (core d) = status d" "serviceType (core d) = serviceType d"
  by (simp_all add: core_def)

lemma map_cid_positionsLoop [simp]: "map cid (positionsLoop i ws s) = map cid s"
  by (induction ws arbitrary: i s) simp_all

lemma map_cid_updateQueuePositions [simp]: "map cid (updateQueuePositions sh s) = map cid s"
  by (simp add: updateQueuePositions_def)






subsection \<open>Identifiers and emails stay unique\<close>




subsection \<open>Ticket numbers\<close>






lemma joinQueue_Inr:
  assumes "joinQueue e svc shop s = (Inr r, s')"
  obtains sv t where "svc = Some sv" and "sv \<in> set serviceTypes"
    and "getNextTokenNumber (bodyShopId shop) s = Some t"
    and "jd_tokenNumber r = t"
    and "jd_queuePosition r = countActive (bodyShopId shop) s + 1"
    and "case findByEmail e s of
           Some c \<Rightarrow> s' = save (c\<lparr>serviceType := sv, shopId := bodyShopId shop,
                                  tokenNumber := Num t,
                                  queuePosition := countActive (bodyShopId shop) s + 1,
                                  status := Waiting\<rparr>) s
         | None \<Rightarrow> s' = s @ [\<lparr>cid = newObjectId s, email = e, shopId = bodyShopId shop,
                               tokenNumber = Num t, status = Waiting, serviceType = sv,
                               estimatedWaitTime = 0,
                               queuePosition = countActive (bodyShopId shop) s + 1\<rparr>]"
  using assms
  by (auto simp: joinQueue_def Let_def split: option.splits if_splits)











subsection \<open>The position returned by Join\<close>

text \<open>
  Claim C4. As stated the claim fails: joinQueue counts the entries in service as well
  (below: one entry in service, the joiner is alone in the waiting line and gets
  position 2). What holds: the position returned is one more than the number of the
  shop's waiting and in-service entries when the request is handled; when the customer
  has no waiting or in-service entry at that shop yet, that is the number of waiting
  and in-service entries of the shop after the join, the new one counted.
\<close>

theorem joinQueue_position:
  assumes "joinQueue e svc shop s = (Inr r, s')"
  shows "jd_queuePosition r = countActive (bodyShopId shop) s + 1
       \<and> (distinct (map cid s)
            \<and> (\<forall>d \<in> set s. email d = e \<longrightarrow> \<not> (shopId d = bodyShopId shop \<and> active d))
          \<longrightarrow> jd_queuePosition r = countActive (bodyShopId shop) s')"
proof -
  from assms obtain sv t where pos: "jd_queuePosition r = countActive (bodyShopId shop) s + 1"
    and s': "case findByEmail e s of
           Some c \<Rightarrow> s' = save (c\<lparr>serviceType := sv, shopId := bodyShopId shop,
                                  tokenNumber := Num t,
                                  queuePosition := countActive (bodyShopId shop) s + 1,
                                  status := Waiting\<rparr>) s
         | None \<Rightarrow> s' = s @ [\<lparr>cid = newObjectId s, email = e, shopId = bodyShopId shop,
                               tokenNumber = Num t, status = Waiting, serviceType = sv,
                               estimatedWaitTime = 0,
                               queuePosition = countActive (bodyShopId shop) s + 1\<rparr>]"
    by (rule joinQueue_Inr)
  have "countActive (bodyShopId shop) s' = countActive (bodyShopId shop) s + 1"
    if dist: "distinct (map cid s)"
      and free: "\<forall>d \<in> set s. email d = e \<longrightarrow> \<not> (shopId d = bodyShopId shop \<and> active d)"
  proof (cases "findByEmail e s")
    case None
    with s' show ?thesis by (simp add: countActive_def active_def)
  next
    case (Some c)
    let ?c' = "c\<lparr>serviceType := sv, shopId := bodyShopId shop, tokenNumber := Num t,
                  queuePosition := countActive (bodyShopId shop) s + 1, status := Waiting\<rparr>"
    have c: "c \<in> set s" "email c = e" using Some by (simp_all add: findByEmail_Some)
    have "length (filter (\<lambda>d. shopId d = bodyShopId shop \<and> active d) (save ?c' s))
          = Suc (length (filter (\<lambda>d. shopId d = bodyShopId shop \<and> active d) s))"
      using dist c free by (intro length_filter_save [of s c]) (auto simp: active_def)
    with s' Some show ?thesis by (simp add: countActive_def)
  qed
  with pos show ?thesis by simp
qed

theorem joinQueue_position_witness:
  "joinQueue ''b@x.io'' (Some ''haircut'') (Some ''shop-a'')
     [\<lparr>cid = 1, email = ''a@x.io'', shopId = ''shop-a'', tokenNumber = Num 1, status = InService,
        serviceType = ''haircut'', estimatedWaitTime = 0, queuePosition = 1\<rparr>]
     = (Inr \<lparr>jd_tokenNumber = 2, jd_queuePosition = 2, jd_estimatedWaitTime = 0,
             jd_customerId = 2\<rparr>,
        [\<lparr>cid = 1, email = ''a@x.io'', shopId = ''shop-a'', tokenNumber = Num 1,
           status = InService, serviceType = ''haircut'', estimatedWaitTime = 0,
           queuePosition = 1\<rparr>,
         \<lparr>cid = 2, email = ''b@x.io'', shopId = ''shop-a'', tokenNumber = Num 2,
           status = Waiting, serviceType = ''haircut'', estimatedWaitTime = 0,
           queuePosition = 2\<rparr>])
   \<and> (2::int) = countActive ''shop-a''
        [\<lparr>cid = 1, email = ''a@x.io'', shopId = ''shop-a'', tokenNumber = Num 1,
           status = InService, serviceType = ''haircut'', estimatedWaitTime = 0,
           queuePosition = 1\<rparr>] + 1
   \<and> (2::int) = countActive ''shop-a''
        [\<lparr>cid = 1, email = ''a@x.io'', shopId = ''shop-a'', tokenNumber = Num 1,
           status = InService, serviceType = ''haircut'', estimatedWaitTime = 0,
           queuePosition = 1\<rparr>,
         \<lparr>cid = 2, email = ''b@x.io'', shopId = ''shop-a'', tokenNumber = Num 2,
           status = Waiting, serviceType = ''haircut'', estimatedWaitTime = 0,
           queuePosition = 2\<rparr>]"
proof -
  let ?a = "\<lparr>cid = 1, email = ''a@x.io'', shopId = ''shop-a'', tokenNumber = Num 1,
             status = InService, serviceType = ''haircut'', estimatedWaitTime = 0,
             queuePosition = 1\<rparr>"
  let ?b = "\<lparr>cid = 2, email = ''b@x.io'', shopId = ''shop-a'', tokenNumber = Num 2,
             status = Waiting, serviceType = ''haircut'', estimatedWaitTime = 0,
             queuePosition = 2\<rparr>"
  have j: "joinQueue ''b@x.io'' (Some ''haircut'') (Some ''shop-a'') [?a]
      = (Inr \<lparr>jd_tokenNumber = 2, jd_queuePosition = 2, jd_estimatedWaitTime = 0,
              jd_customerId = 2\<rparr>, [?a, ?b])"
    by code_simp
  have h: "distinct (map cid [?a])
      \<and> (\<forall>d \<in> set [?a]. email d = ''b@x.io''
            \<longrightarrow> \<not> (shopId d = bodyShopId (Some ''shop-a'') \<and> active d))"
    by simp
  from joinQueue_position [OF j] h j show ?thesis
    by (simp add: bodyShopId_def)
qed

theorem joinQueue_position_counterexample:
  "fst (joinQueue ''b@x.io'' (Some ''haircut'') (Some ''shop-a'')
         (run [Register ''a@x.io'', Register ''b@x.io'',
               Join ''a@x.io'' (Some ''haircut'') (Some ''shop-a''), Serve (ObjectId 1)] []))
     = Inr \<lparr>jd_tokenNumber = 2, jd_queuePosition = 2, jd_estimatedWaitTime = 0,
            jd_customerId = 2\<rparr>
   \<and> findWaiting ''shop-a''
       (snd (joinQueue ''b@x.io'' (Some ''haircut'') (Some ''shop-a'')
              (run [Register ''a@x.io'', Register ''b@x.io'',
                    Join ''a@x.io'' (Some ''haircut'') (Some ''shop-a''),
                    Serve (ObjectId 1)] [])))
     = [\<lparr>cid = 2, email = ''b@x.io'', shopId = ''shop-a'', tokenNumber = Num 2,
          status = Waiting, serviceType = ''haircut'', estimatedWaitTime = 0,
          queuePosition = 2\<rparr>]"
  by code_simp

subsection \<open>One document per customer\<close>



subsection \<open>The position recompute\<close>

lemma positionsLoop_fold: "positionsLoop i ws s = fold save (renumber i ws) s"
  by (induction ws arbitrary: i s) simp_all

lemma fold_save_map:
  assumes "distinct (map cid cs)"
  shows "fold save cs s
         = map (\<lambda>d. case find (\<lambda>c. cid c = cid d) cs of Some c \<Rightarrow> c | None \<Rightarrow> d) s"
  using assms
proof (induction cs arbitrary: s)
  case Nil
  then show ?case by simp
next
  case (Cons c cs)
  have none: "find (\<lambda>x. cid x = cid c) cs = None"
    using Cons.prems by (auto simp: find_None_iff image_iff)
  have "fold save (c # cs) s = fold save cs (save c s)" by simp
  also have "\<dots> = map (\<lambda>d. case find (\<lambda>x. cid x = cid d) cs of Some x \<Rightarrow> x | None \<Rightarrow> d)
                      (save c s)"
    using Cons.prems by (intro Cons.IH) simp
  also have "\<dots> = map (\<lambda>d. case find (\<lambda>x. cid x = cid d) (c # cs) of Some x \<Rightarrow> x | None \<Rightarrow> d) s"
    using none by (auto simp: save_def)
  finally show ?case .
qed

lemma fold_save_same:
  assumes "distinct (map cid s)" and "set cs \<subseteq> set s"
  shows "fold save cs s = s"
  using assms(2) by (induction cs) (simp_all add: save_same [OF assms(1)])

lemma map_cid_renumber [simp]: "map cid (renumber i ws) = map cid ws"
  by (induction ws arbitrary: i) simp_all

lemma length_renumber [simp]: "length (renumber i ws) = length ws"
  by (induction ws arbitrary: i) simp_all

lemma map_core_renumber [simp]: "map core (renumber i ws) = map core ws"
  by (induction ws arbitrary: i) simp_all

lemma renumber_idem: "renumber i (renumber i ws) = renumber i ws"
  by (induction ws arbitrary: i) (simp_all add: setPosition_def)

lemma renumber_lookup:
  assumes "distinct (map cid ws)"
  shows "map (\<lambda>d. case find (\<lambda>c. cid c = cid d) (renumber i ws) of Some c \<Rightarrow> c | None \<Rightarrow> d) ws
         = renumber i ws"
  using assms
proof (induction ws arbitrary: i)
  case Nil
  then show ?case by simp
next
  case (Cons w ws)
  have "map (\<lambda>d. case find (\<lambda>c. cid c = cid d) (renumber i (w # ws)) of
                    Some c \<Rightarrow> c | None \<Rightarrow> d) ws
        = map (\<lambda>d. case find (\<lambda>c. cid c = cid d) (renumber (Suc i) ws) of
                    Some c \<Rightarrow> c | None \<Rightarrow> d) ws"
    using Cons.prems by (intro map_cong) auto
  also have "\<dots> = renumber (Suc i) ws"
    using Cons.prems by (intro Cons.IH) simp
  finally show ?case by simp
qed

lemma queuePosition_renumber:
  "map queuePosition (renumber i ws) = map int [Suc i..<Suc (i + length ws)]"
proof (induction ws arbitrary: i)
  case Nil
  then show ?case by simp
next
  case (Cons w ws)
  have "[Suc i..<Suc (i + length (w # ws))] = Suc i # [Suc (Suc i)..<Suc (Suc i + length ws)]"
    by (subst upt_rec) simp
  with Cons [of "Suc i"] show ?case by (simp add: setPosition_def)
qed

lemma sorted_renumber: "sorted (map queuePosition (renumber i ws))"
  unfolding queuePosition_renumber sorted_map by (simp only: of_nat_le_iff sorted_upt)

lemma distinct_renumber: "distinct (map queuePosition (renumber i ws))"
  unfolding queuePosition_renumber by (simp add: distinct_map inj_on_def)

lemma filter_key_single:
  assumes "distinct (map f zs)" and "k \<in> set zs"
  shows "filter (\<lambda>x. f k = f x) zs = [k]"
  using assms
proof (induction zs)
  case Nil
  then show ?case by simp
next
  case (Cons a zs)
  show ?case
  proof (cases "k = a")
    case True
    then have "filter (\<lambda>x. f k = f x) zs = []"
      using Cons.prems(1) by (auto simp: filter_empty_conv image_iff)
    with True show ?thesis by simp
  next
    case False
    with Cons.prems have "k \<in> set zs" "f k \<noteq> f a" by (auto simp: image_iff)
    with Cons show ?thesis by simp
  qed
qed

lemma sort_key_unique:
  assumes "mset ys = mset xs" and "distinct (map f ys)" and "sorted (map f ys)"
  shows "sort_key f xs = ys"
proof (rule properties_for_sort_key [OF assms(1) _ assms(3)])
  fix k assume k: "k \<in> set ys"
  have "mset (map f xs) = mset (map f ys)" using assms(1) by simp
  then have dx: "distinct (map f xs)" using assms(2) by (metis mset_eq_imp_distinct_iff)
  have kx: "k \<in> set xs" using k assms(1) by (metis mset_eq_setD)
  show "filter (\<lambda>x. f k = f x) ys = filter (\<lambda>x. f k = f x) xs"
    by (simp add: filter_key_single [OF assms(2) k] filter_key_single [OF dx kx])
qed

lemma distinct_map_sort_key:
  "distinct (map f xs) \<Longrightarrow> distinct (map f (sort_key g xs))"
  by (simp add: distinct_map)

lemma waiting_renumber:
  assumes "c \<in> set (renumber i ws)" and "\<forall>w \<in> set ws. shopId w = sh \<and> status w = Waiting"
  shows "shopId c = sh \<and> status c = Waiting"
proof -
  have "core c \<in> core ` set (renumber i ws)" using assms(1) by (rule imageI)
  also have "core ` set (renumber i ws) = set (map core (renumber i ws))" by (simp only: set_map)
  also have "\<dots> = core ` set ws" by simp
  finally obtain w where "w \<in> set ws" "core c = core w" by auto
  with assms(2) core_fields(2,4) [of c] core_fields(2,4) [of w] show ?thesis by simp
qed

lemma updateQueuePositions_map:
  assumes "distinct (map cid s)"
  shows "updateQueuePositions sh s
         = map (\<lambda>d. case find (\<lambda>c. cid c = cid d)
                            (renumber 0 (sort_key queuePosition (findWaiting sh s))) of
                       Some c \<Rightarrow> c | None \<Rightarrow> d) s"
proof -
  have "distinct (map cid (findWaiting sh s))"
    using assms by (simp add: findWaiting_def distinct_map_filter)
  then have "distinct (map cid (renumber 0 (sort_key queuePosition (findWaiting sh s))))"
    by (simp add: distinct_map_sort_key)
  then show ?thesis
    by (simp add: updateQueuePositions_def positionsLoop_fold fold_save_map)
qed

lemma findWaiting_updateQueuePositions:
  assumes "distinct (map cid s)"
  shows "sort_key queuePosition (findWaiting sh (updateQueuePositions sh s))
         = renumber 0 (sort_key queuePosition (findWaiting sh s))"
proof -
  let ?F = "findWaiting sh s"
  let ?W = "sort_key queuePosition ?F"
  let ?cs = "renumber 0 ?W"
  let ?u = "\<lambda>d. case find (\<lambda>c. cid c = cid d) ?cs of Some c \<Rightarrow> c | None \<Rightarrow> d"
  let ?P = "\<lambda>d. shopId d = sh \<and> status d = Waiting"
  have U: "updateQueuePositions sh s = map ?u s"
    by (rule updateQueuePositions_map [OF assms])
  have dW: "distinct (map cid ?W)"
    using assms by (simp add: findWaiting_def distinct_map_filter distinct_map_sort_key)
  have allW: "\<forall>w \<in> set ?W. ?P w" by (simp add: findWaiting_def)
  have keep: "?P (?u d) = ?P d" if d: "d \<in> set s" for d
  proof (cases "find (\<lambda>c. cid c = cid d) ?cs")
    case None
    then show ?thesis by simp
  next
    case (Some c)
    then have c: "c \<in> set ?cs" "cid c = cid d" by (auto simp: find_Some_iff)
    then have Pc: "?P c" using waiting_renumber [OF c(1) allW] by simp
    have "cid c \<in> cid ` set ?cs" using c(1) by (rule imageI)
    also have "cid ` set ?cs = set (map cid ?cs)" by (simp only: set_map)
    also have "\<dots> = cid ` set ?F" by simp
    finally have "cid d \<in> cid ` set ?F" using c(2) by simp
    then obtain w where w: "w \<in> set ?F" "cid w = cid d" by auto
    then have "w \<in> set s" by (simp add: findWaiting_def)
    with assms d w(2) have "w = d" by (auto intro: cid_unique)
    with w(1) have "?P d" by (simp add: findWaiting_def)
    with Pc Some show ?thesis by simp
  qed
  have "findWaiting sh (map ?u s) = map ?u (filter (?P \<circ> ?u) s)"
    by (simp add: findWaiting_def filter_map)
  also have "filter (?P \<circ> ?u) s = filter ?P s"
    by (rule filter_cong [OF refl]) (simp only: comp_def keep)
  finally have F': "findWaiting sh (updateQueuePositions sh s) = map ?u ?F"
    by (simp add: U findWaiting_def)
  have "mset (map ?u ?F) = mset (map ?u ?W)" by simp
  also have "map ?u ?W = ?cs" by (rule renumber_lookup [OF dW])
  finally have "mset ?cs = mset (findWaiting sh (updateQueuePositions sh s))"
    by (simp only: F')
  then show ?thesis
    by (intro sort_key_unique distinct_renumber sorted_renumber)
qed

lemma findWaiting_save_not_waiting:
  assumes "status c' \<noteq> Waiting"
  shows "findWaiting sh (save c' s) = filter (\<lambda>d. cid d \<noteq> cid c') (findWaiting sh s)"
  using assms by (induction s) (auto simp: save_def findWaiting_def)

lemma positions_after_recompute:
  assumes "distinct (map cid s)"
  shows "map queuePosition (sort_key queuePosition (findWaiting sh (updateQueuePositions sh s)))
           = map int [1..<Suc (length (findWaiting sh (updateQueuePositions sh s)))]
       \<and> map cid (sort_key queuePosition (findWaiting sh (updateQueuePositions sh s)))
           = map cid (sort_key queuePosition (findWaiting sh s))"
proof -
  let ?W = "sort_key queuePosition (findWaiting sh s)"
  let ?W' = "sort_key queuePosition (findWaiting sh (updateQueuePositions sh s))"
  have W': "?W' = renumber 0 ?W" by (rule findWaiting_updateQueuePositions [OF assms])
  have "length (findWaiting sh (updateQueuePositions sh s)) = length ?W'" by simp
  also have "\<dots> = length ?W" by (simp only: W' length_renumber)
  finally have len: "length (findWaiting sh (updateQueuePositions sh s)) = length ?W" .
  have "map queuePosition ?W' = map int [Suc 0..<Suc (0 + length ?W)]"
    by (simp only: W' queuePosition_renumber)
  with len W' show ?thesis by simp
qed

text \<open>
  Claim C8. On a collection whose documents have pairwise different identifiers, a
  second run of updateQueuePositions for the same shop leaves the collection exactly as
  the first run left it: every position and every estimated wait is the same.
\<close>

theorem updateQueuePositions_idempotent:
  assumes "distinct (map cid s)"
  shows "updateQueuePositions sh (updateQueuePositions sh s) = updateQueuePositions sh s"
proof -
  let ?U = "updateQueuePositions sh s"
  let ?W' = "sort_key queuePosition (findWaiting sh ?U)"
  have dU: "distinct (map cid ?U)" using assms by simp
  have W': "?W' = renumber 0 (sort_key queuePosition (findWaiting sh s))"
    by (rule findWaiting_updateQueuePositions [OF assms])
  have "renumber 0 ?W' = ?W'" by (simp only: W' renumber_idem)
  moreover have "set ?W' \<subseteq> set ?U" by (auto simp: findWaiting_def)
  ultimately have "fold save (renumber 0 ?W') ?U = ?U"
    by (simp only: fold_save_same [OF dU])
  then show ?thesis
    by (simp only: updateQueuePositions_def [of sh ?U] positionsLoop_fold)
qed

theorem updateQueuePositions_idempotent_witness:
  "updateQueuePositions ''shop-a''
     (updateQueuePositions ''shop-a''
        [\<lparr>cid = 1, email = ''a@x.io'', shopId = ''shop-a'', tokenNumber = Num 4,
           status = Waiting, serviceType = ''haircut'', estimatedWaitTime = 0,
           queuePosition = 5\<rparr>,
         \<lparr>cid = 2, email = ''b@x.io'', shopId = ''shop-a'', tokenNumber = Num 5,
           status = Waiting, serviceType = ''shave'', estimatedWaitTime = 60,
           queuePosition = 3\<rparr>,
         \<lparr>cid = 3, email = ''c@x.io'', shopId = ''shop-a'', tokenNumber = Num 3,
           status = InService, serviceType = ''haircut'', estimatedWaitTime = 20,
           queuePosition = 1\<rparr>])
   = [\<lparr>cid = 1, email = ''a@x.io'', shopId = ''shop-a'', tokenNumber = Num 4,
        status = Waiting, serviceType = ''haircut'', estimatedWaitTime = 40,
        queuePosition = 2\<rparr>,
      \<lparr>cid = 2, email = ''b@x.io'', shopId = ''shop-a'', tokenNumber = Num 5,
        status = Waiting, serviceType = ''shave'', estimatedWaitTime = 20,
        queuePosition = 1\<rparr>,
      \<lparr>cid = 3, email = ''c@x.io'', shopId = ''shop-a'', tokenNumber = Num 3,
        status = InService, serviceType = ''haircut'', estimatedWaitTime = 20,
        queuePosition = 1\<rparr>]"
proof -
  let ?s = "[\<lparr>cid = 1, email = ''a@x.io'', shopId = ''shop-a'', tokenNumber = Num 4,
           status = Waiting, serviceType = ''haircut'', estimatedWaitTime = 0,
           queuePosition = 5\<rparr>,
         \<lparr>cid = 2, email = ''b@x.io'', shopId = ''shop-a'', tokenNumber = Num 5,
           status = Waiting, serviceType = ''shave'', estimatedWaitTime = 60,
           queuePosition = 3\<rparr>,
         \<lparr>cid = 3, email = ''c@x.io'', shopId = ''shop-a'', tokenNumber = Num 3,
           status = InService, serviceType = ''haircut'', estimatedWaitTime = 20,
           queuePosition = 1\<rparr>]"
  have d: "distinct (map cid ?s)" by simp
  have u: "updateQueuePositions ''shop-a'' ?s
      = [\<lparr>cid = 1, email = ''a@x.io'', shopId = ''shop-a'', tokenNumber = Num 4,
        status = Waiting, serviceType = ''haircut'', estimatedWaitTime = 40,
        queuePosition = 2\<rparr>,
      \<lparr>cid = 2, email = ''b@x.io'', shopId = ''shop-a'', tokenNumber = Num 5,
        status = Waiting, serviceType = ''shave'', estimatedWaitTime = 20,
        queuePosition = 1\<rparr>,
      \<lparr>cid = 3, email = ''c@x.io'', shopId = ''shop-a'', tokenNumber = Num 3,
        status = InService, serviceType = ''haircut'', estimatedWaitTime = 20,
        queuePosition = 1\<rparr>]"
    by code_simp
  from updateQueuePositions_idempotent [OF d, of "''shop-a''"] show ?thesis
    by (simp only: u)
qed

text \<open>
  Claim C2. As stated the claim fails: updateQueuePositions sorts the waiting entries by
  their stored position, not by ticket number, and the two orders can differ (below:
  after a cancellation the entry with ticket 4 is at position 1 and the entry with ticket
  3 at position 2). What holds: after a successful Complete or Cancel of an entry, the
  waiting entries of that entry's shop have exactly the positions 1..M, assigned in
  ascending order of the positions they had stored before (entries with equal stored
  positions in collection order).
\<close>

theorem positions_after_complete_or_cancel:
  assumes "distinct (map cid s)"
    and "findById i s = Some c"
    and "completeService (ObjectId i) s = (Inr r, s')
         \<or> cancelQueue (ObjectId i) u s = (Inr (), s')"
  shows "map queuePosition (sort_key queuePosition (findWaiting (shopId c) s'))
           = map int [1..<Suc (length (findWaiting (shopId c) s'))]
       \<and> map cid (sort_key queuePosition (findWaiting (shopId c) s'))
           = map cid (sort_key queuePosition
                        (filter (\<lambda>d. cid d \<noteq> i) (findWaiting (shopId c) s)))"
proof -
  have ci: "cid c = i" using assms(2) by (simp add: findById_Some)
  from assms(3) obtain c' where s': "s' = updateQueuePositions (shopId c) (save c' s)"
    and c': "cid c' = i" "status c' \<noteq> Waiting"
  proof
    assume "completeService (ObjectId i) s = (Inr r, s')"
    then have "s' = updateQueuePositions (shopId c) (save (c\<lparr>status := Completed\<rparr>) s)"
      using assms(2) by (auto simp: completeService_def Let_def)
    then show ?thesis using ci by (intro that [of "c\<lparr>status := Completed\<rparr>"]) simp_all
  next
    assume "cancelQueue (ObjectId i) u s = (Inr (), s')"
    then have "s' = updateQueuePositions (shopId c)
                      (save (c\<lparr>status := Cancelled, tokenNumber := Null, queuePosition := 0,
                               shopId := ''main-shop''\<rparr>) s)"
      using assms(2)
      by (auto simp: cancelQueue_def Let_def split: option.splits if_splits)
    then show ?thesis using ci
      by (intro that [of "c\<lparr>status := Cancelled, tokenNumber := Null, queuePosition := 0,
                            shopId := ''main-shop''\<rparr>"]) simp_all
  qed
  have d1: "distinct (map cid (save c' s))" using assms(1) by simp
  have "findWaiting (shopId c) (save c' s)
        = filter (\<lambda>d. cid d \<noteq> i) (findWaiting (shopId c) s)"
    using findWaiting_save_not_waiting [OF c'(2), of "shopId c" s] c'(1) by simp
  with positions_after_recompute [OF d1, of "shopId c"] s' show ?thesis by simp
qed

theorem positions_after_complete_or_cancel_witness:
  "cancelQueue (ObjectId 2) (Some ''b@x.io'')
     [\<lparr>cid = 1, email = ''a@x.io'', shopId = ''shop-a'', tokenNumber = Num 1,
        status = Waiting, serviceType = ''haircut'', estimatedWaitTime = 0,
        queuePosition = 1\<rparr>,
      \<lparr>cid = 2, email = ''b@x.io'', shopId = ''shop-a'', tokenNumber = Num 2,
        status = Waiting, serviceType = ''haircut'', estimatedWaitTime = 0,
        queuePosition = 2\<rparr>,
      \<lparr>cid = 3, email = ''c@x.io'', shopId = ''shop-a'', tokenNumber = Num 3,
        status = Waiting, serviceType = ''haircut'', estimatedWaitTime = 0,
        queuePosition = 3\<rparr>]
   = (Inr (),
      [\<lparr>cid = 1, email = ''a@x.io'', shopId = ''shop-a'', tokenNumber = Num 1,
         status = Waiting, serviceType = ''haircut'', estimatedWaitTime = 20,
         queuePosition = 1\<rparr>,
       \<lparr>cid = 2, email = ''b@x.io'', shopId = ''main-shop'', tokenNumber = Null,
         status = Cancelled, serviceType = ''haircut'', estimatedWaitTime = 0,
         queuePosition = 0\<rparr>,
       \<lparr>cid = 3, email = ''c@x.io'', shopId = ''shop-a'', tokenNumber = Num 3,
         status = Waiting, serviceType = ''haircut'', estimatedWaitTime = 40,
         queuePosition = 2\<rparr>])
   \<and> map queuePosition (sort_key queuePosition (findWaiting ''shop-a''
       [\<lparr>cid = 1, email = ''a@x.io'', shopId = ''shop-a'', tokenNumber = Num 1,
         status = Waiting, serviceType = ''haircut'', estimatedWaitTime = 20,
         queuePosition = 1\<rparr>,
       \<lparr>cid = 2, email = ''b@x.io'', shopId = ''main-shop'', tokenNumber = Null,
         status = Cancelled, serviceType = ''haircut'', estimatedWaitTime = 0,
         queuePosition = 0\<rparr>,
       \<lparr>cid = 3, email = ''c@x.io'', shopId = ''shop-a'', tokenNumber = Num 3,
         status = Waiting, serviceType = ''haircut'', estimatedWaitTime = 40,
         queuePosition = 2\<rparr>])) = [1, 2]"
proof -
  let ?b = "\<lparr>cid = 2, email = ''b@x.io'', shopId = ''shop-a'', tokenNumber = Num 2,
        status = Waiting, serviceType = ''haircut'', estimatedWaitTime = 0,
        queuePosition = 2\<rparr>"
  let ?s = "[\<lparr>cid = 1, email = ''a@x.io'', shopId = ''shop-a'', tokenNumber = Num 1,
        status = Waiting, serviceType = ''haircut'', estimatedWaitTime = 0,
        queuePosition = 1\<rparr>, ?b,
      \<lparr>cid = 3, email = ''c@x.io'', shopId = ''shop-a'', tokenNumber = Num 3,
        status = Waiting, serviceType = ''haircut'', estimatedWaitTime = 0,
        queuePosition = 3\<rparr>]"
  let ?s' = "[\<lparr>cid = 1, email = ''a@x.io'', shopId = ''shop-a'', tokenNumber = Num 1,
         status = Waiting, serviceType = ''haircut'', estimatedWaitTime = 20,
         queuePosition = 1\<rparr>,
       \<lparr>cid = 2, email = ''b@x.io'', shopId = ''main-shop'', tokenNumber = Null,
         status = Cancelled, serviceType = ''haircut'', estimatedWaitTime = 0,
         queuePosition = 0\<rparr>,
       \<lparr>cid = 3, email = ''c@x.io'', shopId = ''shop-a'', tokenNumber = Num 3,
         status = Waiting, serviceType = ''haircut'', estimatedWaitTime = 40,
         queuePosition = 2\<rparr>]"
  have d: "distinct (map cid ?s)" by simp
  have f: "findById 2 ?s = Some ?b" by code_simp
  have c: "cancelQueue (ObjectId 2) (Some ''b@x.io'') ?s = (Inr (), ?s')" by code_simp
  have l: "map int [1..<Suc (length (findWaiting ''shop-a'' ?s'))] = [1, 2]" by code_simp
  from positions_after_complete_or_cancel [OF d f disjI2, OF c] c l show ?thesis
    by simp
qed

theorem positions_not_in_ticket_order_counterexample:
  "map (\<lambda>d. (email d, tokenNumber d, queuePosition d))
     (findWaiting ''shop-a''
        (run [Register ''c1@x.io'', Register ''c2@x.io'', Register ''c3@x.io'',
              Register ''c4@x.io'',
              Join ''c1@x.io'' (Some ''haircut'') (Some ''shop-a''),
              Join ''c2@x.io'' (Some ''haircut'') (Some ''shop-a''),
              Join ''c3@x.io'' (Some ''haircut'') (Some ''shop-a''),
              Join ''c1@x.io'' (Some ''haircut'') (Some ''shop-b''),
              Join ''c2@x.io'' (Some ''haircut'') (Some ''shop-b''),
              Join ''c4@x.io'' (Some ''haircut'') (Some ''shop-a''),
              Join ''c1@x.io'' (Some ''haircut'') (Some ''shop-a''),
              Cancel (ObjectId 1) (Some ''c1@x.io'')] []))
   = [(''c3@x.io'', Num 3, 2), (''c4@x.io'', Num 4, 1)]"
  by code_simp

subsection \<open>The order of discovery results\<close>

















end
